theory Spec2Isabelle
  imports Main
begin

section \<open>Input handlers of the roguelike: a shallow embedding of input_handlers.py\<close>

text \<open>
  The module turns key presses into actions, runs the actions and switches between the
  handlers (main play, modal prompt, game over, message history). Every method is a
  function on an explicit engine state; a method that can raise returns a sum whose
  left side is the exception.
\<close>

subsection \<open>Key symbols\<close>

text \<open>
  The key symbols \<^verbatim>\<open>tcod.event.K_*\<close> come from the input library, where they are
  pairwise distinct values of one enumeration. Every symbol the module names is a
  constructor; \<open>K_OTHER\<close> stands for each remaining symbol of the library. In
  the methods below \<open>key\<close> is \<^verbatim>\<open>event.sym\<close>.
\<close>

datatype keysym =
    K_UP | K_DOWN | K_LEFT | K_RIGHT | K_HOME | K_END | K_PAGEUP | K_PAGEDOWN
  | K_KP_1 | K_KP_2 | K_KP_3 | K_KP_4 | K_KP_5 | K_KP_6 | K_KP_7 | K_KP_8 | K_KP_9
  | K_h | K_j | K_k | K_l | K_y | K_u | K_b | K_n
  | K_PERIOD | K_CLEAR
  | K_v | K_g | K_ESCAPE
  | K_LSHIFT | K_RSHIFT | K_LCTRL | K_RCTRL | K_LALT | K_RALT
  | K_OTHER nat

subsection \<open>Actions, exceptions, handlers and the engine\<close>

text \<open>
  The four action classes the module constructs, each over the acting entity. What an
  action does when performed is not part of this module (see \<open>perform\<close> below).
\<close>

datatype 'p action =
    BumpAction 'p int int
  | WaitAction 'p
  | PickupAction 'p
  | EscapeAction 'p

text \<open>
  Exceptions: \<open>Impossible\<close> carries \<^verbatim>\<open>exc.args[0]\<close>, the message the condition was
  raised with; \<open>SystemExit\<close> ends the process; \<open>Exception\<close> is any other exception,
  by the name of its class.
\<close>

datatype exn =
    Impossible string
  | SystemExit
  | Exception string

text \<open>The fields of a \<^verbatim>\<open>HistoryViewer\<close>; Python integers are unbounded.\<close>

record history_viewer =
  log_length :: int
  cursor :: int

text \<open>
  The handler objects that can be installed as \<^verbatim>\<open>engine.event_handler\<close>. The field
  holds the handler as it was constructed; the live fields of the history viewer that
  receives an event are threaded through its method as \<open>self\<close>.
\<close>

datatype handler =
    MainGameEventHandler
  | AskUserEventHandler
  | GameOverEventHandler
  | HistoryViewer history_viewer

text \<open>
  The engine as far as the module touches it: the installed handler, the sequence
  \<^verbatim>\<open>message_log.messages\<close>, the player, and \<open>world\<close> for everything else the session
  owns (map, entities, field of view, mouse location).
\<close>

record ('p, 'm, 'w) engine =
  event_handler :: handler
  message_log :: "'m list"
  player :: 'p
  world :: 'w

text \<open>
  The collaborators defined outside the module, taken as parameters:
  \<^item> \<open>perform\<close> is \<^verbatim>\<open>action.perform()\<close>: it returns, or raises an exception, and in both
    cases leaves behind the engine state it produced;
  \<^item> \<open>add_message\<close> is \<^verbatim>\<open>message_log.add_message(text, fg)\<close> on the message sequence;
  \<^item> \<open>impossible\<close> is the constant \<^verbatim>\<open>color.impossible\<close>;
  \<^item> \<open>handle_enemy_turns\<close> and \<open>update_fov\<close> are the engine's methods of these names.
\<close>

record ('c, 'p, 'm, 'w) externals =
  perform :: "'p action \<Rightarrow> ('p, 'm, 'w) engine \<Rightarrow> (exn + unit) \<times> ('p, 'm, 'w) engine"
  add_message :: "string \<Rightarrow> 'c \<Rightarrow> 'm list \<Rightarrow> 'm list"
  impossible :: 'c
  handle_enemy_turns :: "('p, 'm, 'w) engine \<Rightarrow> ('p, 'm, 'w) engine"
  update_fov :: "('p, 'm, 'w) engine \<Rightarrow> ('p, 'm, 'w) engine"

subsection \<open>The key tables\<close>

definition MOVE_KEYS :: "keysym \<rightharpoonup> int \<times> int" where
  "MOVE_KEYS = map_of
     [(K_UP, (0, - 1)), (K_DOWN, (0, 1)), (K_LEFT, (- 1, 0)), (K_RIGHT, (1, 0)),
      (K_HOME, (- 1, - 1)), (K_END, (- 1, 1)), (K_PAGEUP, (1, - 1)), (K_PAGEDOWN, (1, 1)),
      (K_KP_1, (- 1, 1)), (K_KP_2, (0, 1)), (K_KP_3, (1, 1)), (K_KP_4, (- 1, 0)),
      (K_KP_5, (0, 0)), (K_KP_6, (1, 0)), (K_KP_7, (- 1, - 1)), (K_KP_8, (0, - 1)),
      (K_KP_9, (1, - 1)),
      (K_h, (- 1, 0)), (K_j, (0, 1)), (K_k, (0, - 1)), (K_l, (1, 0)),
      (K_y, (- 1, - 1)), (K_u, (1, - 1)), (K_b, (- 1, 1)), (K_n, (1, 1))]"

definition WAIT_KEYS :: "keysym set" where
  "WAIT_KEYS = {K_PERIOD, K_KP_5, K_CLEAR}"

definition CURSOR_Y_KEYS :: "keysym \<rightharpoonup> int" where
  "CURSOR_Y_KEYS = map_of [(K_UP, - 1), (K_DOWN, 1), (K_PAGEUP, - 10), (K_PAGEDOWN, 10)]"

subsection \<open>EventHandler\<close>

text \<open>
  \<^verbatim>\<open>EventHandler.handle_action\<close>: no action gives \<open>False\<close>; an \<open>Impossible\<close> raised by
  the action is reported to the message log and gives \<open>False\<close>; any other exception
  leaves the method; otherwise the enemies take their turns, the field of view is
  recomputed, and the result is \<open>True\<close>.
\<close>

definition handle_action ::
  "('c, 'p, 'm, 'w) externals \<Rightarrow> 'p action option \<Rightarrow> ('p, 'm, 'w) engine
    \<Rightarrow> (exn + bool) \<times> ('p, 'm, 'w) engine" where
  "handle_action X action e =
     (case action of
        None \<Rightarrow> (Inr False, e)
      | Some a \<Rightarrow>
          (case perform X a e of
             (Inl exc, e1) \<Rightarrow>
               (case exc of
                  Impossible msg \<Rightarrow>
                    (Inr False,
                     e1\<lparr>message_log := add_message X msg (impossible X) (message_log e1)\<rparr>)
                | SystemExit \<Rightarrow> (Inl exc, e1)
                | Exception c \<Rightarrow> (Inl exc, e1))
           | (Inr u, e1) \<Rightarrow> (Inr True, update_fov X (handle_enemy_turns X e1))))"

subsection \<open>AskUserEventHandler\<close>

definition AskUserEventHandler_handle_action ::
  "('c, 'p, 'm, 'w) externals \<Rightarrow> 'p action option \<Rightarrow> ('p, 'm, 'w) engine
    \<Rightarrow> (exn + bool) \<times> ('p, 'm, 'w) engine" where
  "AskUserEventHandler_handle_action X action e =
     (case handle_action X action e of
        (Inl exc, e1) \<Rightarrow> (Inl exc, e1)
      | (Inr b, e1) \<Rightarrow>
          if b then (Inr True, e1\<lparr>event_handler := MainGameEventHandler\<rparr>)
          else (Inr False, e1))"

definition AskUserEventHandler_on_exit ::
  "('p, 'm, 'w) engine \<Rightarrow> 'p action option \<times> ('p, 'm, 'w) engine" where
  "AskUserEventHandler_on_exit e = (None, e\<lparr>event_handler := MainGameEventHandler\<rparr>)"

definition AskUserEventHandler_ev_keydown ::
  "keysym \<Rightarrow> ('p, 'm, 'w) engine \<Rightarrow> 'p action option \<times> ('p, 'm, 'w) engine" where
  "AskUserEventHandler_ev_keydown key e =
     (if key \<in> {K_LSHIFT, K_RSHIFT, K_LCTRL, K_RCTRL, K_LALT, K_RALT} then (None, e)
      else AskUserEventHandler_on_exit e)"

subsection \<open>HistoryViewer\<close>

definition HistoryViewer_init :: "('p, 'm, 'w) engine \<Rightarrow> history_viewer" where
  "HistoryViewer_init e =
     (let n = int (length (message_log e)) in \<lparr>log_length = n, cursor = n - 1\<rparr>)"

text \<open>
  \<^verbatim>\<open>HistoryViewer.ev_keydown\<close> returns no action; its effect is on the cursor of \<open>self\<close>
  or on the installed handler.
\<close>

definition HistoryViewer_ev_keydown ::
  "history_viewer \<Rightarrow> keysym \<Rightarrow> ('p, 'm, 'w) engine
    \<Rightarrow> history_viewer \<times> ('p, 'm, 'w) engine" where
  "HistoryViewer_ev_keydown self key e =
     (case CURSOR_Y_KEYS key of
        Some adjust \<Rightarrow>
          if adjust < 0 \<and> cursor self = 0 then
            (self\<lparr>cursor := log_length self - 1\<rparr>, e)
          else if adjust > 0 \<and> cursor self = log_length self - 1 then
            (self\<lparr>cursor := 0\<rparr>, e)
          else
            (self\<lparr>cursor := max 0 (min (cursor self + adjust) (log_length self - 1))\<rparr>, e)
      | None \<Rightarrow>
          if key = K_HOME then (self\<lparr>cursor := 0\<rparr>, e)
          else if key = K_END then (self\<lparr>cursor := log_length self - 1\<rparr>, e)
          else (self, e\<lparr>event_handler := MainGameEventHandler\<rparr>))"

subsection \<open>MainGameEventHandler\<close>

definition MainGameEventHandler_ev_keydown ::
  "keysym \<Rightarrow> ('p, 'm, 'w) engine \<Rightarrow> 'p action option \<times> ('p, 'm, 'w) engine" where
  "MainGameEventHandler_ev_keydown key e =
     (case MOVE_KEYS key of
        Some (dx, dy) \<Rightarrow> (Some (BumpAction (player e) dx dy), e)
      | None \<Rightarrow>
          if key \<in> WAIT_KEYS then (Some (WaitAction (player e)), e)
          else if key = K_v then
            (None, e\<lparr>event_handler := HistoryViewer (HistoryViewer_init e)\<rparr>)
          else if key = K_g then (Some (PickupAction (player e)), e)
          else if key = K_ESCAPE then (Some (EscapeAction (player e)), e)
          else (None, e))"

subsection \<open>GameOverEventHandler\<close>

definition GameOverEventHandler_ev_keydown ::
  "keysym \<Rightarrow> ('p, 'm, 'w) engine \<Rightarrow> (exn + 'p action option) \<times> ('p, 'm, 'w) engine" where
  "GameOverEventHandler_ev_keydown key e =
     (if key = K_ESCAPE then (Inl SystemExit, e) else (Inr None, e))"

subsection \<open>The clamp of the specification\<close>

text \<open>
  The specification writes the cursor update with \<open>clamp(x, lo, hi)\<close>: the value \<open>x\<close>
  brought into the range from \<open>lo\<close> to \<open>hi\<close>. The code writes a maximum of a minimum.
\<close>

definition spec_clamp :: "int \<Rightarrow> int \<Rightarrow> int \<Rightarrow> int" where
  "spec_clamp x lo hi = (if x < lo then lo else if hi < x then hi else x)"

subsection \<open>A session to run the handlers on\<close>

text \<open>
  One choice of collaborators, to evaluate the handlers on: each records in \<open>world\<close>
  that it was called, in order. Picking up raises \<open>Impossible\<close> before it changes
  anything, the escape action exits, the other actions succeed. Here the message log
  appends each message with its style.
\<close>

definition trace_perform ::
  "string action \<Rightarrow> (string, string \<times> string, string list) engine
    \<Rightarrow> (exn + unit) \<times> (string, string \<times> string, string list) engine" where
  "trace_perform a e =
     (case a of
        BumpAction p dx dy \<Rightarrow> (Inr (), e\<lparr>world := world e @ [''perform'']\<rparr>)
      | WaitAction p \<Rightarrow> (Inr (), e\<lparr>world := world e @ [''perform'']\<rparr>)
      | PickupAction p \<Rightarrow> (Inl (Impossible ''There is nothing here to pick up.''), e)
      | EscapeAction p \<Rightarrow> (Inl SystemExit, e))"

definition trace_externals ::
  "(string, string, string \<times> string, string list) externals" where
  "trace_externals =
     \<lparr>perform = trace_perform,
      add_message = (\<lambda>text fg msgs. msgs @ [(text, fg)]),
      impossible = ''impossible'',
      handle_enemy_turns = (\<lambda>e. e\<lparr>world := world e @ [''handle_enemy_turns'']\<rparr>),
      update_fov = (\<lambda>e. e\<lparr>world := world e @ [''update_fov'']\<rparr>)\<rparr>"

definition session :: "handler \<Rightarrow> (string \<times> string) list
    \<Rightarrow> (string, string \<times> string, string list) engine" where
  "session h msgs = \<lparr>event_handler = h, message_log = msgs, player = ''player'', world = []\<rparr>"

text \<open>
  A second choice, the same but for \<open>perform\<close>: here every action first records in
  \<open>world\<close> that it ran and only then raises \<open>Impossible\<close>. Nothing in
  \<^verbatim>\<open>handle_action\<close> restores what an action changed before it raised.
\<close>

definition late_perform ::
  "string action \<Rightarrow> (string, string \<times> string, string list) engine
    \<Rightarrow> (exn + unit) \<times> (string, string \<times> string, string list) engine" where
  "late_perform a e =
     (Inl (Impossible ''That way is blocked.''), e\<lparr>world := world e @ [''perform'']\<rparr>)"

definition late_externals ::
  "(string, string, string \<times> string, string list) externals" where
  "late_externals = trace_externals\<lparr>perform := late_perform\<rparr>"

section \<open>Properties\<close>

subsection \<open>The history viewer's cursor\<close>

lemma CURSOR_Y_KEYS_simps:
  "CURSOR_Y_KEYS K_UP = Some (- 1)"
  "CURSOR_Y_KEYS K_DOWN = Some 1"
  "CURSOR_Y_KEYS K_PAGEUP = Some (- 10)"
  "CURSOR_Y_KEYS K_PAGEDOWN = Some 10"
  by (simp_all add: CURSOR_Y_KEYS_def)

lemma max_min_spec_clamp:
  "lo \<le> hi \<Longrightarrow> max lo (min x hi) = spec_clamp x lo hi"
  by (simp add: spec_clamp_def)

text \<open>
  Claim C3. In a history viewer with \<open>log_length > 0\<close>, a key-down on a vertical
  navigation key (up: \<open>-1\<close>, down: \<open>+1\<close>, page up: \<open>-10\<close>, page down: \<open>+10\<close>)
  updates the cursor as follows: if the step is negative and the cursor is \<open>0\<close>, the
  cursor becomes \<open>log_length - 1\<close>; else if the step is positive and the cursor is
  \<open>log_length - 1\<close>, the cursor becomes \<open>0\<close>; otherwise the cursor becomes
  \<open>cursor + step\<close> clamped to the range from \<open>0\<close> to \<open>log_length - 1\<close>.
\<close>

theorem HistoryViewer_cursor_step:
  assumes "0 < log_length self"
    and "(key, step) \<in> {(K_UP, - 1), (K_DOWN, 1), (K_PAGEUP, - 10), (K_PAGEDOWN, 10)}"
  shows "cursor (fst (HistoryViewer_ev_keydown self key e)) =
     (if step < 0 \<and> cursor self = 0 then log_length self - 1
      else if 0 < step \<and> cursor self = log_length self - 1 then 0
      else spec_clamp (cursor self + step) 0 (log_length self - 1))"
proof -
  from assms(2) have tab: "CURSOR_Y_KEYS key = Some step"
    by (auto simp: CURSOR_Y_KEYS_simps)
  from assms(1) have "max 0 (min (cursor self + step) (log_length self - 1)) =
      spec_clamp (cursor self + step) 0 (log_length self - 1)"
    by (intro max_min_spec_clamp) simp
  with tab show ?thesis
    by (simp add: HistoryViewer_ev_keydown_def)
qed

text \<open>
  The three runs the specification lists, with five messages: up at the top wraps to
  \<open>4\<close>, down at the bottom wraps to \<open>0\<close>, page down from \<open>2\<close> stops at \<open>4\<close>.
\<close>

theorem HistoryViewer_cursor_step_witness:
  "(0::int) < 5
   \<and> cursor (fst (HistoryViewer_ev_keydown \<lparr>log_length = 5, cursor = 0\<rparr> K_UP
        (session MainGameEventHandler []))) = 4
   \<and> cursor (fst (HistoryViewer_ev_keydown \<lparr>log_length = 5, cursor = 4\<rparr> K_DOWN
        (session MainGameEventHandler []))) = 0
   \<and> cursor (fst (HistoryViewer_ev_keydown \<lparr>log_length = 5, cursor = 2\<rparr> K_PAGEDOWN
        (session MainGameEventHandler []))) = 4"
  using
    HistoryViewer_cursor_step [of "\<lparr>log_length = 5, cursor = 0\<rparr>" K_UP "- 1"
      "session MainGameEventHandler []"]
    HistoryViewer_cursor_step [of "\<lparr>log_length = 5, cursor = 4\<rparr>" K_DOWN 1
      "session MainGameEventHandler []"]
    HistoryViewer_cursor_step [of "\<lparr>log_length = 5, cursor = 2\<rparr>" K_PAGEDOWN 10
      "session MainGameEventHandler []"]
  by (simp add: spec_clamp_def)

text \<open>
  Claim C4, as amended. When the history viewer is created over an empty message log,
  \<open>log_length\<close> is \<open>0\<close> and the cursor is \<open>-1\<close>; a key-down on a vertical navigation
  key (up, down, page up, page down) in that state sets the cursor to \<open>0\<close> and leaves
  \<open>log_length\<close> at \<open>0\<close>. The method has no case for the empty log: for up and page up
  the clamp's lower bound \<open>0\<close> wins over its upper bound \<open>-1\<close>, for down and page down
  the cursor \<open>-1\<close> is \<open>log_length - 1\<close> and wraps to \<open>0\<close>.
\<close>

theorem HistoryViewer_empty_log:
  assumes "message_log e = []"
  shows "HistoryViewer_init e = \<lparr>log_length = 0, cursor = - 1\<rparr>
    \<and> (key \<in> {K_UP, K_DOWN, K_PAGEUP, K_PAGEDOWN} \<longrightarrow>
         fst (HistoryViewer_ev_keydown (HistoryViewer_init e) key e')
           = \<lparr>log_length = 0, cursor = 0\<rparr>)"
  using assms
  by (auto simp: HistoryViewer_init_def HistoryViewer_ev_keydown_def CURSOR_Y_KEYS_simps)

theorem HistoryViewer_empty_log_witness:
  "message_log (session MainGameEventHandler []) = []
   \<and> K_PAGEUP \<in> {K_UP, K_DOWN, K_PAGEUP, K_PAGEDOWN}
   \<and> HistoryViewer_init (session MainGameEventHandler []) = \<lparr>log_length = 0, cursor = - 1\<rparr>
   \<and> fst (HistoryViewer_ev_keydown (HistoryViewer_init (session MainGameEventHandler []))
        K_PAGEUP (session MainGameEventHandler [])) = \<lparr>log_length = 0, cursor = 0\<rparr>"
proof -
  have empty: "message_log (session MainGameEventHandler []) = []"
    by (simp add: session_def)
  have nav: "K_PAGEUP \<in> {K_UP, K_DOWN, K_PAGEUP, K_PAGEDOWN}"
    by simp
  from HistoryViewer_empty_log [OF empty, of K_PAGEUP "session MainGameEventHandler []"]
    empty nav
  show ?thesis by blast
qed

text \<open>
  Claim C4 as it was stated says the cursor is still \<open>-1\<close> after a navigation key.
  Opening the history from the main game over an empty log installs a viewer with
  \<open>log_length = 0\<close> and \<open>cursor = -1\<close>; the up key then moves the cursor to \<open>0\<close>.
\<close>

theorem HistoryViewer_empty_log_counterexample:
  "MainGameEventHandler_ev_keydown K_v (session MainGameEventHandler []) =
     (None, session (HistoryViewer \<lparr>log_length = 0, cursor = - 1\<rparr>) [])
   \<and> fst (HistoryViewer_ev_keydown \<lparr>log_length = 0, cursor = - 1\<rparr> K_UP
        (session (HistoryViewer \<lparr>log_length = 0, cursor = - 1\<rparr>) []))
       = \<lparr>log_length = 0, cursor = 0\<rparr>
   \<and> cursor (fst (HistoryViewer_ev_keydown \<lparr>log_length = 0, cursor = - 1\<rparr> K_UP
        (session (HistoryViewer \<lparr>log_length = 0, cursor = - 1\<rparr>) []))) \<noteq> - 1"
  by (simp add: session_def MainGameEventHandler_ev_keydown_def MOVE_KEYS_def WAIT_KEYS_def
      HistoryViewer_init_def HistoryViewer_ev_keydown_def CURSOR_Y_KEYS_simps)

text \<open>
  Claim C10. For a history viewer created over a non-empty log, creation sets the cursor
  to \<open>log_length - 1\<close>, so that \<open>0 \<le> cursor \<le> log_length - 1\<close> holds with
  \<open>log_length \<ge> 1\<close>; and every key-down, whatever the key, keeps
  \<open>0 \<le> cursor \<le> log_length - 1\<close> and does not change \<open>log_length\<close>.
\<close>

theorem HistoryViewer_cursor_in_range:
  "(message_log e \<noteq> [] \<longrightarrow>
      1 \<le> log_length (HistoryViewer_init e)
      \<and> cursor (HistoryViewer_init e) = log_length (HistoryViewer_init e) - 1
      \<and> 0 \<le> cursor (HistoryViewer_init e)
      \<and> cursor (HistoryViewer_init e) \<le> log_length (HistoryViewer_init e) - 1)
   \<and> (1 \<le> log_length self \<and> 0 \<le> cursor self \<and> cursor self \<le> log_length self - 1 \<longrightarrow>
      log_length (fst (HistoryViewer_ev_keydown self key e')) = log_length self
      \<and> 0 \<le> cursor (fst (HistoryViewer_ev_keydown self key e'))
      \<and> cursor (fst (HistoryViewer_ev_keydown self key e')) \<le> log_length self - 1)"
proof (intro conjI impI)
  assume ne: "message_log e \<noteq> []"
  have init: "HistoryViewer_init e =
      \<lparr>log_length = int (length (message_log e)),
       cursor = int (length (message_log e)) - 1\<rparr>"
    by (simp add: HistoryViewer_init_def Let_def)
  from ne show "1 \<le> log_length (HistoryViewer_init e)"
    unfolding init by (cases "message_log e") simp_all
  from ne show "0 \<le> cursor (HistoryViewer_init e)"
    unfolding init by (cases "message_log e") simp_all
  show "cursor (HistoryViewer_init e) = log_length (HistoryViewer_init e) - 1"
    unfolding init by simp
  show "cursor (HistoryViewer_init e) \<le> log_length (HistoryViewer_init e) - 1"
    unfolding init by simp
next
  assume inv: "1 \<le> log_length self \<and> 0 \<le> cursor self \<and> cursor self \<le> log_length self - 1"
  show "log_length (fst (HistoryViewer_ev_keydown self key e')) = log_length self"
    by (cases "CURSOR_Y_KEYS key") (simp_all add: HistoryViewer_ev_keydown_def)
  show "0 \<le> cursor (fst (HistoryViewer_ev_keydown self key e'))"
  proof (cases "CURSOR_Y_KEYS key")
    case None
    with inv show ?thesis by (simp add: HistoryViewer_ev_keydown_def)
  next
    case (Some adjust)
    with inv show ?thesis by (simp add: HistoryViewer_ev_keydown_def)
  qed
  show "cursor (fst (HistoryViewer_ev_keydown self key e')) \<le> log_length self - 1"
  proof (cases "CURSOR_Y_KEYS key")
    case None
    with inv show ?thesis by (simp add: HistoryViewer_ev_keydown_def)
  next
    case (Some adjust)
    with inv show ?thesis by (auto simp: HistoryViewer_ev_keydown_def)
  qed
qed

theorem HistoryViewer_cursor_in_range_witness:
  "message_log (session MainGameEventHandler [(''Hello'', ''white''), (''Bye'', ''white'')]) \<noteq> []
   \<and> HistoryViewer_init (session MainGameEventHandler [(''Hello'', ''white''), (''Bye'', ''white'')])
       = \<lparr>log_length = 2, cursor = 1\<rparr>
   \<and> fst (HistoryViewer_ev_keydown \<lparr>log_length = 2, cursor = 1\<rparr> K_PAGEUP
        (session (HistoryViewer \<lparr>log_length = 2, cursor = 1\<rparr>)
           [(''Hello'', ''white''), (''Bye'', ''white'')]))
       = \<lparr>log_length = 2, cursor = 0\<rparr>"
proof -
  let ?log = "[(''Hello'', ''white''), (''Bye'', ''white'')]"
  let ?self = "\<lparr>log_length = 2, cursor = 1\<rparr>"
  let ?after = "fst (HistoryViewer_ev_keydown ?self K_PAGEUP (session (HistoryViewer ?self) ?log))"
  have nonempty: "message_log (session MainGameEventHandler ?log) \<noteq> []"
    by (simp add: session_def)
  have init: "HistoryViewer_init (session MainGameEventHandler ?log) = ?self"
    by (simp add: session_def HistoryViewer_init_def)
  have moved: "cursor ?after = 0"
    by (simp add: HistoryViewer_ev_keydown_def CURSOR_Y_KEYS_simps)
  from HistoryViewer_cursor_in_range
    [of "session MainGameEventHandler ?log" ?self K_PAGEUP "session (HistoryViewer ?self) ?log"]
  have "log_length ?after = 2 \<and> 0 \<le> cursor ?after \<and> cursor ?after \<le> 1"
    by simp
  with moved have "?after = \<lparr>log_length = 2, cursor = 0\<rparr>"
    by (cases ?after) simp
  with nonempty init show ?thesis
    by simp
qed

subsection \<open>Running an action\<close>

lemma trace_perform_PickupAction:
  "perform trace_externals (PickupAction p) e =
     (Inl (Impossible ''There is nothing here to pick up.''), e)"
  by (simp add: trace_externals_def trace_perform_def)

lemma trace_perform_WaitAction:
  "perform trace_externals (WaitAction p) e = (Inr (), e\<lparr>world := world e @ [''perform'']\<rparr>)"
  by (simp add: trace_externals_def trace_perform_def)

text \<open>
  Claim C1, as amended. For every action whose \<open>perform\<close> raises \<open>Impossible\<close>,
  \<open>handle_action\<close> returns \<open>False\<close> and hands exactly one message, the condition's
  message with the style \<open>impossible\<close>, to the message log. Neither the enemies' turns nor
  the field of view are run: the result is the same whatever these two operations are.
  The state returned is \<open>e1\<close>, the state the action left when it raised, with only
  the message log changed: \<open>handle_action\<close> itself changes nothing but the log, and it
  does not undo what the action did before raising.
\<close>

theorem handle_action_impossible:
  assumes "perform X a e = (Inl (Impossible msg), e1)"
  shows "handle_action X (Some a) e =
      (Inr False, e1\<lparr>message_log := add_message X msg (impossible X) (message_log e1)\<rparr>)
    \<and> handle_action (X\<lparr>handle_enemy_turns := h, update_fov := u\<rparr>) (Some a) e =
      handle_action X (Some a) e"
  using assms by (simp add: handle_action_def)

theorem handle_action_impossible_witness:
  "perform trace_externals (PickupAction ''player'') (session MainGameEventHandler []) =
     (Inl (Impossible ''There is nothing here to pick up.''), session MainGameEventHandler [])
   \<and> handle_action trace_externals (Some (PickupAction ''player''))
       (session MainGameEventHandler []) =
     (Inr False,
      \<lparr>event_handler = MainGameEventHandler,
       message_log = [(''There is nothing here to pick up.'', ''impossible'')],
       player = ''player'', world = []\<rparr>)"
proof -
  let ?s = "session MainGameEventHandler []"
  have raised: "perform trace_externals (PickupAction ''player'') ?s =
      (Inl (Impossible ''There is nothing here to pick up.''), ?s)"
    by (rule trace_perform_PickupAction)
  have "?s\<lparr>message_log := add_message trace_externals ''There is nothing here to pick up.''
          (impossible trace_externals) (message_log ?s)\<rparr> =
      \<lparr>event_handler = MainGameEventHandler,
       message_log = [(''There is nothing here to pick up.'', ''impossible'')],
       player = ''player'', world = []\<rparr>"
    by (simp add: session_def trace_externals_def)
  with handle_action_impossible [OF raised] raised show ?thesis
    by simp
qed

text \<open>
  Claim C1 as it was stated says that the game state other than the log is unchanged.
  With an action that changes \<open>world\<close> and then raises \<open>Impossible\<close>, \<open>handle_action\<close>
  returns \<open>False\<close> with the one message logged, and \<open>world\<close> is not what it was before
  the call.
\<close>

theorem handle_action_impossible_counterexample:
  "perform late_externals (BumpAction ''player'' 0 (- 1)) (session MainGameEventHandler []) =
     (Inl (Impossible ''That way is blocked.''),
      \<lparr>event_handler = MainGameEventHandler, message_log = [],
       player = ''player'', world = [''perform'']\<rparr>)
   \<and> handle_action late_externals (Some (BumpAction ''player'' 0 (- 1)))
       (session MainGameEventHandler []) =
     (Inr False,
      \<lparr>event_handler = MainGameEventHandler,
       message_log = [(''That way is blocked.'', ''impossible'')],
       player = ''player'', world = [''perform'']\<rparr>)
   \<and> world (snd (handle_action late_externals (Some (BumpAction ''player'' 0 (- 1)))
       (session MainGameEventHandler []))) \<noteq> world (session MainGameEventHandler [])"
  by (simp add: handle_action_def late_externals_def late_perform_def trace_externals_def
      session_def)

text \<open>
  Claim C2. For every action whose \<open>perform\<close> returns, \<open>handle_action\<close> runs the
  enemies' turns once on the state the action left, then the field of view once on the
  result, and returns \<open>True\<close>; with no action it returns \<open>False\<close> and the state is
  the one it was given.
\<close>

theorem handle_action_success:
  "(perform X a e = (Inr (), e1) \<longrightarrow>
      handle_action X (Some a) e = (Inr True, update_fov X (handle_enemy_turns X e1)))
   \<and> handle_action X None e = (Inr False, e)"
  by (simp add: handle_action_def)

text \<open>
  On the recording session the calls appear in \<open>world\<close> in the order they were made.
\<close>

theorem handle_action_success_witness:
  "perform trace_externals (WaitAction ''player'') (session MainGameEventHandler []) =
     (Inr (), \<lparr>event_handler = MainGameEventHandler, message_log = [],
       player = ''player'', world = [''perform'']\<rparr>)
   \<and> handle_action trace_externals (Some (WaitAction ''player''))
       (session MainGameEventHandler []) =
     (Inr True,
      \<lparr>event_handler = MainGameEventHandler, message_log = [], player = ''player'',
       world = [''perform'', ''handle_enemy_turns'', ''update_fov'']\<rparr>)
   \<and> handle_action trace_externals None (session MainGameEventHandler []) =
     (Inr False, session MainGameEventHandler [])"
proof -
  let ?s = "session MainGameEventHandler []"
  let ?s1 = "\<lparr>event_handler = MainGameEventHandler, message_log = [],
       player = ''player'', world = [''perform'']\<rparr>"
  have returned: "perform trace_externals (WaitAction ''player'') ?s = (Inr (), ?s1)"
    by (simp add: trace_perform_WaitAction session_def)
  have "update_fov trace_externals (handle_enemy_turns trace_externals ?s1) =
      \<lparr>event_handler = MainGameEventHandler, message_log = [], player = ''player'',
       world = [''perform'', ''handle_enemy_turns'', ''update_fov'']\<rparr>"
    by (simp add: trace_externals_def)
  with handle_action_success [of trace_externals "WaitAction ''player''" ?s ?s1] returned
  show ?thesis by simp
qed

subsection \<open>The main game handler\<close>

lemma MainGameEventHandler_other_wait_keys:
  "key \<in> WAIT_KEYS \<Longrightarrow> key \<noteq> K_KP_5 \<Longrightarrow>
   MainGameEventHandler_ev_keydown key e = (Some (WaitAction (player e)), e)"
  by (auto simp: WAIT_KEYS_def MainGameEventHandler_ev_keydown_def MOVE_KEYS_def)

text \<open>
  Claim C5 says that every key of \<open>WAIT_KEYS\<close> gives a wait action and never a bump.
  The key \<open>K_KP_5\<close> is in \<open>WAIT_KEYS\<close> and also in \<open>MOVE_KEYS\<close>, which the method
  looks up first: the key gives a bump action with the offset \<open>(0, 0)\<close>.
\<close>

theorem MainGameEventHandler_KP_5:
  "K_KP_5 \<in> WAIT_KEYS
   \<and> MainGameEventHandler_ev_keydown K_KP_5 e = (Some (BumpAction (player e) 0 0), e)"
  by (simp add: WAIT_KEYS_def MainGameEventHandler_ev_keydown_def MOVE_KEYS_def)

text \<open>
  Claim C6. For every key of \<open>MOVE_KEYS\<close>, a key-down in the main game handler gives
  a bump action of the player with exactly the offset the table has for the key (and
  changes nothing in the engine).
\<close>

theorem MainGameEventHandler_move_keys:
  assumes "MOVE_KEYS key = Some (dx, dy)"
  shows "MainGameEventHandler_ev_keydown key e = (Some (BumpAction (player e) dx dy), e)"
  using assms by (simp add: MainGameEventHandler_ev_keydown_def)

theorem MainGameEventHandler_move_keys_witness:
  "MOVE_KEYS K_y = Some (- 1, - 1)
   \<and> MainGameEventHandler_ev_keydown K_y (session MainGameEventHandler []) =
       (Some (BumpAction ''player'' (- 1) (- 1)), session MainGameEventHandler [])"
proof -
  have tab: "MOVE_KEYS K_y = Some (- 1, - 1)"
    by (simp add: MOVE_KEYS_def)
  have "player (session MainGameEventHandler []) = ''player''"
    by (simp add: session_def)
  with MainGameEventHandler_move_keys [OF tab, of "session MainGameEventHandler []"] tab
  show ?thesis by simp
qed

subsection \<open>The modal prompt\<close>

text \<open>
  Claim C7. When the action handed to the modal prompt's \<open>handle_action\<close> is performed
  with success, the installed handler becomes the main game handler after the enemies'
  turns and the field of view, and the result is \<open>True\<close>. When the action raises
  \<open>Impossible\<close>, or there is no action, the result is \<open>False\<close> and the installed handler
  is not assigned.
\<close>

theorem AskUserEventHandler_handle_action_transition:
  "(perform X a e = (Inr (), e1) \<longrightarrow>
      AskUserEventHandler_handle_action X (Some a) e =
        (Inr True,
         (update_fov X (handle_enemy_turns X e1))\<lparr>event_handler := MainGameEventHandler\<rparr>))
   \<and> (perform X a e = (Inl (Impossible msg), e2) \<longrightarrow>
      AskUserEventHandler_handle_action X (Some a) e =
        (Inr False, e2\<lparr>message_log := add_message X msg (impossible X) (message_log e2)\<rparr>)
      \<and> event_handler (snd (AskUserEventHandler_handle_action X (Some a) e)) =
        event_handler e2)
   \<and> AskUserEventHandler_handle_action X None e = (Inr False, e)"
  by (simp add: AskUserEventHandler_handle_action_def handle_action_def)

theorem AskUserEventHandler_handle_action_transition_witness:
  "AskUserEventHandler_handle_action trace_externals (Some (WaitAction ''player''))
       (session AskUserEventHandler []) =
     (Inr True,
      \<lparr>event_handler = MainGameEventHandler, message_log = [], player = ''player'',
       world = [''perform'', ''handle_enemy_turns'', ''update_fov'']\<rparr>)
   \<and> AskUserEventHandler_handle_action trace_externals (Some (PickupAction ''player''))
       (session AskUserEventHandler []) =
     (Inr False,
      \<lparr>event_handler = AskUserEventHandler,
       message_log = [(''There is nothing here to pick up.'', ''impossible'')],
       player = ''player'', world = []\<rparr>)
   \<and> AskUserEventHandler_handle_action trace_externals None (session AskUserEventHandler []) =
     (Inr False, session AskUserEventHandler [])"
proof -
  let ?s = "session AskUserEventHandler []"
  let ?s1 = "?s\<lparr>world := world ?s @ [''perform'']\<rparr>"
  have returned: "perform trace_externals (WaitAction ''player'') ?s = (Inr (), ?s1)"
    by (rule trace_perform_WaitAction)
  have raised: "perform trace_externals (PickupAction ''player'') ?s =
      (Inl (Impossible ''There is nothing here to pick up.''), ?s)"
    by (rule trace_perform_PickupAction)
  have after: "(update_fov trace_externals (handle_enemy_turns trace_externals ?s1))
        \<lparr>event_handler := MainGameEventHandler\<rparr> =
      \<lparr>event_handler = MainGameEventHandler, message_log = [], player = ''player'',
       world = [''perform'', ''handle_enemy_turns'', ''update_fov'']\<rparr>"
    by (simp add: session_def trace_externals_def)
  have logged: "?s\<lparr>message_log := add_message trace_externals
          ''There is nothing here to pick up.'' (impossible trace_externals)
          (message_log ?s)\<rparr> =
      \<lparr>event_handler = AskUserEventHandler,
       message_log = [(''There is nothing here to pick up.'', ''impossible'')],
       player = ''player'', world = []\<rparr>"
    by (simp add: session_def trace_externals_def)
  from AskUserEventHandler_handle_action_transition
      [of trace_externals "WaitAction ''player''" ?s ?s1]
    AskUserEventHandler_handle_action_transition
      [of trace_externals "PickupAction ''player''" ?s _
          "''There is nothing here to pick up.''" ?s]
    returned raised after logged
  show ?thesis by simp
qed

text \<open>
  Claim C8. In the modal prompt a key-down on a key other than the six modifier keys
  (left and right shift, control, alt) installs the main game handler and gives no
  action; a key-down on one of the six gives no action and changes nothing.
\<close>

theorem AskUserEventHandler_ev_keydown_exits:
  "(key \<notin> {K_LSHIFT, K_RSHIFT, K_LCTRL, K_RCTRL, K_LALT, K_RALT} \<longrightarrow>
      AskUserEventHandler_ev_keydown key e = (None, e\<lparr>event_handler := MainGameEventHandler\<rparr>))
   \<and> (key \<in> {K_LSHIFT, K_RSHIFT, K_LCTRL, K_RCTRL, K_LALT, K_RALT} \<longrightarrow>
      AskUserEventHandler_ev_keydown key e = (None, e))"
  by (simp add: AskUserEventHandler_ev_keydown_def AskUserEventHandler_on_exit_def)

theorem AskUserEventHandler_ev_keydown_exits_witness:
  "K_ESCAPE \<notin> {K_LSHIFT, K_RSHIFT, K_LCTRL, K_RCTRL, K_LALT, K_RALT}
   \<and> AskUserEventHandler_ev_keydown K_ESCAPE (session AskUserEventHandler []) =
       (None, session MainGameEventHandler [])
   \<and> K_RCTRL \<in> {K_LSHIFT, K_RSHIFT, K_LCTRL, K_RCTRL, K_LALT, K_RALT}
   \<and> AskUserEventHandler_ev_keydown K_RCTRL (session AskUserEventHandler []) =
       (None, session AskUserEventHandler [])"
proof -
  have "(session AskUserEventHandler [])\<lparr>event_handler := MainGameEventHandler\<rparr> =
      session MainGameEventHandler []"
    by (simp add: session_def)
  with AskUserEventHandler_ev_keydown_exits [of K_ESCAPE "session AskUserEventHandler []"]
    AskUserEventHandler_ev_keydown_exits [of K_RCTRL "session AskUserEventHandler []"]
  show ?thesis by simp
qed

subsection \<open>Game over\<close>

text \<open>
  Claim C9. In the game-over handler a key-down on escape raises \<open>SystemExit\<close>; a
  key-down on any other key returns no action, raises nothing and leaves the engine,
  the installed handler included, as it was.
\<close>

theorem GameOverEventHandler_ev_keydown_terminal:
  "(key = K_ESCAPE \<longrightarrow> GameOverEventHandler_ev_keydown key e = (Inl SystemExit, e))
   \<and> (key \<noteq> K_ESCAPE \<longrightarrow> GameOverEventHandler_ev_keydown key e = (Inr None, e))"
  by (simp add: GameOverEventHandler_ev_keydown_def)

theorem GameOverEventHandler_ev_keydown_terminal_witness:
  "GameOverEventHandler_ev_keydown K_ESCAPE (session GameOverEventHandler []) =
       (Inl SystemExit, session GameOverEventHandler [])
   \<and> K_v \<noteq> K_ESCAPE
   \<and> GameOverEventHandler_ev_keydown K_v (session GameOverEventHandler []) =
       (Inr None, session GameOverEventHandler [])
   \<and> event_handler (snd (GameOverEventHandler_ev_keydown K_v (session GameOverEventHandler [])))
       = GameOverEventHandler"
proof -
  have "event_handler (session GameOverEventHandler []) = GameOverEventHandler"
    by (simp add: session_def)
  with GameOverEventHandler_ev_keydown_terminal [of K_ESCAPE "session GameOverEventHandler []"]
    GameOverEventHandler_ev_keydown_terminal [of K_v "session GameOverEventHandler []"]
  show ?thesis by simp
qed

end
